theory Spec2Isabelle
  imports Complex_Main
begin

section \<open>The values of the component's inputs\<close>

text \<open>
  The component \<^verbatim>\<open>PlantVisualization\<close> of
  \<^verbatim>\<open>src/app/components/plant-visualization.tsx\<close> takes
  \<^verbatim>\<open>progressPercentage: number\<close> and an optional \<^verbatim>\<open>plantType: string\<close>.
  A JavaScript number is either NaN, one of the two infinities, or a finite value. A finite
  value is modelled by the real number it denotes, and arithmetic on finite values is taken
  exactly: the rounding of \<^verbatim>\<open>* 0.8\<close>, \<^verbatim>\<open>* 0.6\<close> and \<^verbatim>\<open>/ 20\<close> to the
  nearest double and the sign of zero are not part of the model. Comparisons of finite
  doubles are exact, and the thresholds 10, 25, 50, 75, 95 and 100 are doubles, so every
  statement below that only compares holds for the doubles as it holds for the reals.
\<close>

datatype number = NaN | NegInf | Fin real | PosInf

text \<open>
  The abstract relational comparison of ECMAScript on numbers, \<^verbatim>\<open>IsLessThan(x, y)\<close>:
  its result is undefined (here \<open>None\<close>) as soon as one operand is NaN.
\<close>

fun IsLessThan :: "number \<Rightarrow> number \<Rightarrow> bool option" where
  "IsLessThan NaN y = None"
| "IsLessThan x NaN = None"
| "IsLessThan PosInf y = Some False"
| "IsLessThan x NegInf = Some False"
| "IsLessThan NegInf y = Some True"
| "IsLessThan x PosInf = Some True"
| "IsLessThan (Fin a) (Fin b) = Some (a < b)"

text \<open>
  The operators \<^verbatim>\<open><\<close>, \<^verbatim>\<open><=\<close> and \<^verbatim>\<open>>=\<close>: \<^verbatim>\<open>x < y\<close> is true when
  \<^verbatim>\<open>IsLessThan(x, y)\<close> is true; \<^verbatim>\<open>x >= y\<close> is true when \<^verbatim>\<open>IsLessThan(x, y)\<close> is
  false; \<^verbatim>\<open>x <= y\<close> is true when \<^verbatim>\<open>IsLessThan(y, x)\<close> is false. An undefined
  comparison makes each of them false.
\<close>

definition js_lt :: "number \<Rightarrow> number \<Rightarrow> bool" where
  "js_lt x y = (IsLessThan x y = Some True)"

definition js_ge :: "number \<Rightarrow> number \<Rightarrow> bool" where
  "js_ge x y = (IsLessThan x y = Some False)"

definition js_le :: "number \<Rightarrow> number \<Rightarrow> bool" where
  "js_le x y = (IsLessThan y x = Some False)"

section \<open>The stage of the plant\<close>

datatype stage = Seed | Sprout | Small | Medium | Large | Flowering | Fruiting

text \<open>\<^verbatim>\<open>getStage\<close>, lines 20 to 28: a chain of early returns, the last one unguarded.\<close>

definition getStage :: "number \<Rightarrow> stage" where
  "getStage percentage =
     (if js_lt percentage (Fin 10) then Seed
      else if js_lt percentage (Fin 25) then Sprout
      else if js_lt percentage (Fin 50) then Small
      else if js_lt percentage (Fin 75) then Medium
      else if js_lt percentage (Fin 95) then Large
      else if js_lt percentage (Fin 100) then Flowering
      else Fruiting)"

text \<open>
  The ordering of the stages, \<open>seed < sprout < small < medium < large < flowering < fruiting\<close>,
  as the position of a stage in that chain.
\<close>

fun stage_rank :: "stage \<Rightarrow> nat" where
  "stage_rank Seed = 0"
| "stage_rank Sprout = 1"
| "stage_rank Small = 2"
| "stage_rank Medium = 3"
| "stage_rank Large = 4"
| "stage_rank Flowering = 5"
| "stage_rank Fruiting = 6"

section \<open>Arithmetic on numbers\<close>

text \<open>
  \<^verbatim>\<open>x * y\<close>, \<^verbatim>\<open>x / y\<close> and \<^verbatim>\<open>x - y\<close> on numbers. NaN is contagious; an infinity times
  zero, an infinity over an infinity and the difference of two equal infinities are NaN.
  The model has one zero, which stands for \<open>+0\<close> where it is a divisor; the component only
  ever divides by the literal 20.
\<close>

fun js_times :: "number \<Rightarrow> number \<Rightarrow> number" where
  "js_times NaN y = NaN"
| "js_times x NaN = NaN"
| "js_times (Fin a) (Fin b) = Fin (a * b)"
| "js_times (Fin a) PosInf = (if a = 0 then NaN else if 0 < a then PosInf else NegInf)"
| "js_times (Fin a) NegInf = (if a = 0 then NaN else if 0 < a then NegInf else PosInf)"
| "js_times PosInf (Fin b) = (if b = 0 then NaN else if 0 < b then PosInf else NegInf)"
| "js_times NegInf (Fin b) = (if b = 0 then NaN else if 0 < b then NegInf else PosInf)"
| "js_times PosInf PosInf = PosInf"
| "js_times NegInf NegInf = PosInf"
| "js_times PosInf NegInf = NegInf"
| "js_times NegInf PosInf = NegInf"

fun js_divide :: "number \<Rightarrow> number \<Rightarrow> number" where
  "js_divide NaN y = NaN"
| "js_divide x NaN = NaN"
| "js_divide (Fin a) (Fin b) =
     (if b = 0 then (if a = 0 then NaN else if 0 < a then PosInf else NegInf)
      else Fin (a / b))"
| "js_divide (Fin a) PosInf = Fin 0"
| "js_divide (Fin a) NegInf = Fin 0"
| "js_divide PosInf (Fin b) = (if 0 \<le> b then PosInf else NegInf)"
| "js_divide NegInf (Fin b) = (if 0 \<le> b then NegInf else PosInf)"
| "js_divide PosInf PosInf = NaN"
| "js_divide NegInf NegInf = NaN"
| "js_divide PosInf NegInf = NaN"
| "js_divide NegInf PosInf = NaN"

fun js_minus :: "number \<Rightarrow> number \<Rightarrow> number" where
  "js_minus NaN y = NaN"
| "js_minus x NaN = NaN"
| "js_minus (Fin a) (Fin b) = Fin (a - b)"
| "js_minus (Fin a) PosInf = NegInf"
| "js_minus (Fin a) NegInf = PosInf"
| "js_minus PosInf (Fin b) = PosInf"
| "js_minus NegInf (Fin b) = NegInf"
| "js_minus PosInf PosInf = NaN"
| "js_minus NegInf NegInf = NaN"
| "js_minus PosInf NegInf = PosInf"
| "js_minus NegInf PosInf = NegInf"

text \<open>
  \<^verbatim>\<open>Math.max(x, y)\<close> is NaN as soon as one argument is NaN, and the larger argument
  otherwise. \<^verbatim>\<open>Math.floor(x)\<close> leaves NaN and the infinities as they are.
\<close>

fun Math_max :: "number \<Rightarrow> number \<Rightarrow> number" where
  "Math_max NaN y = NaN"
| "Math_max x NaN = NaN"
| "Math_max PosInf y = PosInf"
| "Math_max x PosInf = PosInf"
| "Math_max NegInf y = y"
| "Math_max x NegInf = x"
| "Math_max (Fin a) (Fin b) = Fin (max a b)"

fun Math_floor :: "number \<Rightarrow> number" where
  "Math_floor (Fin a) = Fin (of_int \<lfloor>a\<rfloor>)"
| "Math_floor x = x"

section \<open>The derived parameters\<close>

text \<open>
  \<^verbatim>\<open>getPlantHeight\<close>, lines 40 to 43, reads \<^verbatim>\<open>progressPercentage\<close> from the enclosing
  component; the model passes it as the argument.
\<close>

definition getPlantHeight :: "number \<Rightarrow> number" where
  "getPlantHeight progressPercentage =
     (let baseHeight = js_times progressPercentage (Fin 0.8)
      in Math_max baseHeight (Fin 5))"

text \<open>
  \<^verbatim>\<open>getPlantColor\<close>, lines 45 to 52, a \<^verbatim>\<open>switch\<close> on \<^verbatim>\<open>plantType\<close> with a default
  branch.
\<close>

definition getPlantColor :: "string \<Rightarrow> string" where
  "getPlantColor plantType =
     (if plantType = ''rose'' then ''#ff6b9d''
      else if plantType = ''tulip'' then ''#c44569''
      else if plantType = ''daisy'' then ''#f8b500''
      else ''#ffd700'')"

text \<open>
  The parameter \<^verbatim>\<open>plantType = 'sunflower'\<close> of line 16: an omitted plant type
  (\<open>None\<close>) takes the default.
\<close>

definition plantType_of :: "string option \<Rightarrow> string" where
  "plantType_of given = (case given of None \<Rightarrow> ''sunflower'' | Some t \<Rightarrow> t)"

text \<open>Lines 54 to 57: \<^verbatim>\<open>plantHeight\<close>, \<^verbatim>\<open>plantColor\<close>, \<^verbatim>\<open>stemHeight\<close>, \<^verbatim>\<open>leafCount\<close>.\<close>

definition stemHeight :: "number \<Rightarrow> number" where
  "stemHeight progressPercentage =
     (let plantHeight = getPlantHeight progressPercentage
      in Math_max (js_times plantHeight (Fin 0.6)) (Fin 10))"

definition leafCount :: "number \<Rightarrow> number" where
  "leafCount progressPercentage = Math_floor (js_divide progressPercentage (Fin 20))"



section \<open>What the component draws\<close>

text \<open>
  The children of the \<^verbatim>\<open>svg\<close> element, lines 67 to 230, in the order of the source. Each
  shape keeps the attributes that depend on the inputs or on its index; the constant
  attributes and the animation properties (\<^verbatim>\<open>initial\<close>, \<^verbatim>\<open>animate\<close>,
  \<^verbatim>\<open>transition\<close>) are left out, as are the wrapper \<^verbatim>\<open>div\<close> with its size classes and
  the text overlay.
  \<^item> \<open>Stem y height\<close>: the \<^verbatim>\<open>rect\<close> of lines 79 to 92.
  \<^item> \<open>Leaf i coords\<close>: the \<^verbatim>\<open>path\<close> of lines 97 to 109 with key \<open>i\<close> and the six
    coordinates of its \<^verbatim>\<open>d\<close> attribute.
  \<^item> \<open>FlowerCenter cy fill\<close>: the \<^verbatim>\<open>circle\<close> of lines 114 to 122.
  \<^item> \<open>Petal i degrees cy fill\<close>: the \<^verbatim>\<open>ellipse\<close> of lines 134 to 149 with key \<open>i\<close>. It
    sits at distance 20 from the point \<open>(100, cy)\<close>, \<open>cy\<close> being \<^verbatim>\<open>190 - stemHeight\<close>, in
    the direction \<open>degrees\<close>, and is rotated by \<open>degrees\<close>; the cosine and the sine that
    place it are not evaluated.
  \<^item> \<open>FruitMarker cy\<close>: the \<^verbatim>\<open>circle\<close> of lines 157 to 165.
  \<^item> \<open>SeedShape\<close> and \<open>SproutShape\<close>: lines 170 to 179 and 184 to 204.
  \<^item> \<open>Sparkle i cx cy\<close>: the \<^verbatim>\<open>circle\<close> of lines 211 to 227.
\<close>

datatype element =
    Soil
  | Stem number number
  | Leaf nat "int list"
  | FlowerCenter number string
  | Petal nat nat number string
  | FruitMarker number
  | SeedShape
  | SproutShape
  | Sparkle nat nat int

datatype js_error = RangeError

text \<open>
  \<^verbatim>\<open>Array.from({ length: n }, f)\<close>, following ECMAScript. The length of the array-like
  argument is \<^verbatim>\<open>ToLength(n)\<close>: NaN and everything up to zero give 0, the rest is
  truncated to an integer and capped at \<open>2\<^sup>5\<^sup>3 - 1\<close>. Creating an array longer than
  \<open>2\<^sup>3\<^sup>2 - 1\<close> throws \<^verbatim>\<open>RangeError\<close>; otherwise the result is \<open>f\<close> at the indices
  \<open>0, \<dots>, len - 1\<close>.
\<close>

fun ToLength :: "number \<Rightarrow> nat" where
  "ToLength NaN = 0"
| "ToLength NegInf = 0"
| "ToLength PosInf = 9007199254740991"
| "ToLength (Fin a) = (if a \<le> 0 then 0 else min (nat \<lfloor>a\<rfloor>) 9007199254740991)"

definition Array_from :: "number \<Rightarrow> (nat \<Rightarrow> 'a) \<Rightarrow> js_error + 'a list" where
  "Array_from n f =
     (let len = ToLength n
      in if 4294967295 < len then Inl RangeError else Inr (map f [0..<len]))"

text \<open>
  \<^verbatim>\<open>{cond && (shape)}\<close> draws the shape when \<open>cond\<close> holds and nothing otherwise.
  The stem, lines 78 to 93.
\<close>

definition stem_part :: "number \<Rightarrow> element list" where
  "stem_part progressPercentage =
     (if getStage progressPercentage \<noteq> Seed
      then [Stem (js_minus (Fin 190) (stemHeight progressPercentage))
                 (stemHeight progressPercentage)]
      else [])"

text \<open>The leaves, lines 96 to 110: one per index of an array of length \<^verbatim>\<open>leafCount\<close>.\<close>

definition leaf :: "nat \<Rightarrow> element" where
  "leaf i =
     Leaf i
       [95 + (if i mod 2 = 0 then - 10 else 15), 180 - int i * 15,
        100 + (if i mod 2 = 0 then - 20 else 25), 175 - int i * 15,
        97 + (if i mod 2 = 0 then - 5 else 10), 170 - int i * 15]"

definition leaves_part :: "number \<Rightarrow> js_error + element list" where
  "leaves_part progressPercentage = Array_from (leafCount progressPercentage) leaf"

text \<open>The flower centre, lines 113 to 123.\<close>

definition flower_center_part :: "number \<Rightarrow> string \<Rightarrow> element list" where
  "flower_center_part progressPercentage plantType =
     (if getStage progressPercentage = Flowering \<or> getStage progressPercentage = Fruiting
      then [FlowerCenter (js_minus (Fin 190) (stemHeight progressPercentage))
                         (getPlantColor plantType)]
      else [])"

text \<open>The petals, lines 126 to 153.\<close>

definition petal :: "number \<Rightarrow> string \<Rightarrow> nat \<Rightarrow> element" where
  "petal progressPercentage plantType i =
     Petal i (i * 45) (js_minus (Fin 190) (stemHeight progressPercentage))
       (getPlantColor plantType)"

definition petals_part :: "number \<Rightarrow> string \<Rightarrow> js_error + element list" where
  "petals_part progressPercentage plantType =
     (if getStage progressPercentage = Flowering \<or> getStage progressPercentage = Fruiting
      then Array_from (Fin 8) (petal progressPercentage plantType)
      else Inr [])"

text \<open>The fruit marker, lines 156 to 166.\<close>

definition fruit_part :: "number \<Rightarrow> element list" where
  "fruit_part progressPercentage =
     (if getStage progressPercentage = Fruiting
      then [FruitMarker (js_minus (Fin 190) (stemHeight progressPercentage))]
      else [])"

text \<open>The seed and the sprout, lines 169 to 180 and 183 to 205.\<close>

definition seed_part :: "number \<Rightarrow> element list" where
  "seed_part progressPercentage =
     (if getStage progressPercentage = Seed then [SeedShape] else [])"

definition sprout_part :: "number \<Rightarrow> element list" where
  "sprout_part progressPercentage =
     (if getStage progressPercentage = Sprout then [SproutShape] else [])"

text \<open>The sparkles, lines 208 to 230, behind a test on the percentage itself.\<close>

definition sparkle :: "nat \<Rightarrow> element" where
  "sparkle i = Sparkle i (80 + i * 40) (150 - int i * 10)"

definition sparkles_part :: "number \<Rightarrow> js_error + element list" where
  "sparkles_part progressPercentage =
     (if js_ge progressPercentage (Fin 25) then Array_from (Fin 3) sparkle else Inr [])"

text \<open>
  The component: the parts in their order. An exception thrown while a part is built
  leaves the component without a result.
\<close>

definition PlantVisualization :: "number \<Rightarrow> string option \<Rightarrow> js_error + element list" where
  "PlantVisualization progressPercentage given =
     (let plantType = plantType_of given
      in case leaves_part progressPercentage of
           Inl e \<Rightarrow> Inl e
         | Inr leaves \<Rightarrow>
             (case petals_part progressPercentage plantType of
                Inl e \<Rightarrow> Inl e
              | Inr petals \<Rightarrow>
                  (case sparkles_part progressPercentage of
                     Inl e \<Rightarrow> Inl e
                   | Inr sparkles \<Rightarrow>
                       Inr (Soil # stem_part progressPercentage @ leaves
                            @ flower_center_part progressPercentage plantType @ petals
                            @ fruit_part progressPercentage @ seed_part progressPercentage
                            @ sprout_part progressPercentage @ sparkles))))"

text \<open>
  What is read off a part that may throw: whether it drew exactly \<open>n\<close> shapes.
\<close>

definition draws :: "js_error + element list \<Rightarrow> nat \<Rightarrow> bool" where
  "draws part n = (case part of Inl e \<Rightarrow> False | Inr shapes \<Rightarrow> length shapes = n)"

section \<open>Comparisons against a finite bound\<close>

lemma js_lt_Fin:
  "js_lt x (Fin b) =
     (case x of NaN \<Rightarrow> False | NegInf \<Rightarrow> True | Fin a \<Rightarrow> a < b | PosInf \<Rightarrow> False)"
  by (cases x) (simp_all add: js_lt_def)

lemma js_ge_Fin:
  "js_ge x (Fin b) =
     (case x of NaN \<Rightarrow> False | NegInf \<Rightarrow> False | Fin a \<Rightarrow> b \<le> a | PosInf \<Rightarrow> True)"
  by (cases x) (auto simp add: js_ge_def)

lemma js_le_cases:
  "js_le x y =
     (case (x, y) of
        (NaN, _) \<Rightarrow> False
      | (_, NaN) \<Rightarrow> False
      | (NegInf, _) \<Rightarrow> True
      | (_, PosInf) \<Rightarrow> True
      | (Fin a, Fin b) \<Rightarrow> a \<le> b
      | _ \<Rightarrow> False)"
  by (cases x; cases y) (auto simp add: js_le_def)

section \<open>The stage\<close>

text \<open>
  NaN is below no threshold, so it falls through every guard of \<^verbatim>\<open>getStage\<close> to the
  last \<^verbatim>\<open>return\<close>; the infinities sit at the two ends.
\<close>

lemma getStage_special:
  "getStage NaN = Fruiting" "getStage NegInf = Seed" "getStage PosInf = Fruiting"
  by (simp_all add: getStage_def js_lt_Fin)

text \<open>
  C1. The stage follows the threshold table, each band closed on the left and open on the
  right: below 10 the stage is seed, from 10 to below 25 sprout, from 25 to below 50 small,
  from 50 to below 75 medium, from 75 to below 95 large, from 95 to below 100 flowering,
  and from 100 on fruiting. In particular 25 gives small, 95 gives flowering and 100 gives
  fruiting.
\<close>

theorem getStage_bands:
  "(js_lt p (Fin 10) \<longrightarrow> getStage p = Seed) \<and>
   (js_ge p (Fin 10) \<and> js_lt p (Fin 25) \<longrightarrow> getStage p = Sprout) \<and>
   (js_ge p (Fin 25) \<and> js_lt p (Fin 50) \<longrightarrow> getStage p = Small) \<and>
   (js_ge p (Fin 50) \<and> js_lt p (Fin 75) \<longrightarrow> getStage p = Medium) \<and>
   (js_ge p (Fin 75) \<and> js_lt p (Fin 95) \<longrightarrow> getStage p = Large) \<and>
   (js_ge p (Fin 95) \<and> js_lt p (Fin 100) \<longrightarrow> getStage p = Flowering) \<and>
   (js_ge p (Fin 100) \<longrightarrow> getStage p = Fruiting) \<and>
   getStage (Fin 25) = Small \<and> getStage (Fin 95) = Flowering \<and> getStage (Fin 100) = Fruiting"
  by (cases p) (simp_all add: getStage_def js_lt_Fin js_ge_Fin)

theorem getStage_bands_witness:
  "js_lt (Fin 9.5) (Fin 10) \<and> getStage (Fin 9.5) = Seed \<and>
   js_lt NegInf (Fin 10) \<and> getStage NegInf = Seed \<and>
   js_ge (Fin 10) (Fin 10) \<and> js_lt (Fin 10) (Fin 25) \<and> getStage (Fin 10) = Sprout \<and>
   js_ge (Fin 24.9) (Fin 10) \<and> js_lt (Fin 24.9) (Fin 25) \<and> getStage (Fin 24.9) = Sprout \<and>
   js_ge (Fin 49) (Fin 25) \<and> js_lt (Fin 49) (Fin 50) \<and> getStage (Fin 49) = Small \<and>
   js_ge (Fin 50) (Fin 50) \<and> js_lt (Fin 50) (Fin 75) \<and> getStage (Fin 50) = Medium \<and>
   js_ge (Fin 75) (Fin 75) \<and> js_lt (Fin 75) (Fin 95) \<and> getStage (Fin 75) = Large \<and>
   js_ge (Fin 99.9) (Fin 95) \<and> js_lt (Fin 99.9) (Fin 100) \<and> getStage (Fin 99.9) = Flowering \<and>
   js_ge (Fin 150) (Fin 100) \<and> getStage (Fin 150) = Fruiting \<and>
   js_ge PosInf (Fin 100) \<and> getStage PosInf = Fruiting"
  using getStage_bands [of "Fin 9.5"] getStage_bands [of NegInf] getStage_bands [of "Fin 10"]
    getStage_bands [of "Fin 24.9"] getStage_bands [of "Fin 49"] getStage_bands [of "Fin 50"]
    getStage_bands [of "Fin 75"] getStage_bands [of "Fin 99.9"] getStage_bands [of "Fin 150"]
    getStage_bands [of PosInf]
  by (simp add: js_lt_Fin js_ge_Fin)

text \<open>
  C4. The stage is monotone: when \<open>p1 <= p2\<close>, the stage at \<open>p1\<close> comes before the stage
  at \<open>p2\<close>, or is the same, in the order seed, sprout, small, medium, large, flowering,
  fruiting.
\<close>

theorem getStage_mono:
  "js_le p1 p2 \<Longrightarrow> stage_rank (getStage p1) \<le> stage_rank (getStage p2)"
  by (cases p1; cases p2) (simp_all add: js_le_cases getStage_def js_lt_Fin)

theorem getStage_mono_witness:
  "js_le (Fin 24.9) (Fin 25) \<and>
   stage_rank (getStage (Fin 24.9)) \<le> stage_rank (getStage (Fin 25)) \<and>
   getStage (Fin 24.9) = Sprout \<and> getStage (Fin 25) = Small"
  using getStage_mono [of "Fin 24.9" "Fin 25"]
  by (simp add: js_le_cases getStage_def js_lt_Fin)

section \<open>The derived parameters on finite percentages\<close>

lemma leafCount_Fin: "leafCount (Fin a) = Fin (of_int \<lfloor>a / 20\<rfloor>)"
  by (simp add: leafCount_def)

lemma leafCount_special:
  "leafCount NaN = NaN" "leafCount NegInf = NegInf" "leafCount PosInf = PosInf"
  by (simp_all add: leafCount_def)

lemma getPlantHeight_Fin: "getPlantHeight (Fin a) = Fin (max (a * 0.8) 5)"
  by (simp add: getPlantHeight_def)

lemma stemHeight_Fin: "stemHeight (Fin a) = Fin (max (max (a * 0.8) 5 * 0.6) 10)"
  by (simp add: stemHeight_def getPlantHeight_def)





text \<open>
  C5. The colour is a fixed lookup on the plant type: rose, tulip and daisy each have
  their colour, and every other plant type, "cactus" for one, has the colour of an
  omitted plant type, which is the sunflower's.
\<close>

theorem plantColor_lookup:
  "getPlantColor (plantType_of (Some ''rose'')) = ''#ff6b9d'' \<and>
   getPlantColor (plantType_of (Some ''tulip'')) = ''#c44569'' \<and>
   getPlantColor (plantType_of (Some ''daisy'')) = ''#f8b500'' \<and>
   (t \<notin> {''rose'', ''tulip'', ''daisy''} \<longrightarrow>
      getPlantColor (plantType_of (Some t)) = getPlantColor (plantType_of None)) \<and>
   getPlantColor (plantType_of (Some ''cactus'')) = getPlantColor (plantType_of None) \<and>
   getPlantColor (plantType_of None) = ''#ffd700''"
  by (simp add: getPlantColor_def plantType_of_def)

theorem plantColor_lookup_witness:
  "''cactus'' \<notin> {''rose'', ''tulip'', ''daisy''} \<and>
   getPlantColor (plantType_of (Some ''cactus'')) = ''#ffd700''"
  using plantColor_lookup [of "''cactus''"]
  by simp



section \<open>The shapes\<close>

lemma upt_8: "[0..<8] = [0, 1, 2, 3, 4, 5, 6, 7]"
  by (simp add: upt_rec)

lemma upt_3: "[0..<3] = [0, 1, 2]"
  by (simp add: upt_rec)

lemma Array_from_8: "Array_from (Fin 8) f = Inr [f 0, f 1, f 2, f 3, f 4, f 5, f 6, f 7]"
  by (simp add: Array_from_def upt_8 del: upt_rec_numeral)

lemma Array_from_3: "Array_from (Fin 3) f = Inr [f 0, f 1, f 2]"
  by (simp add: Array_from_def upt_3 del: upt_rec_numeral)

lemma sparkles_part_eq:
  "sparkles_part p =
     (if js_ge p (Fin 25) then Inr [sparkle 0, sparkle 1, sparkle 2] else Inr [])"
  by (simp add: sparkles_part_def Array_from_3)

lemma petals_part_eq:
  "petals_part p t =
     (if getStage p = Flowering \<or> getStage p = Fruiting
      then Inr (map (petal p t) [0, 1, 2, 3, 4, 5, 6, 7]) else Inr [])"
  by (simp add: petals_part_def Array_from_8)

lemma ToLength_of_int: "k \<le> 4294967295 \<Longrightarrow> ToLength (Fin (of_int k)) = nat k"
  by simp

text \<open>
  Only the leaves can make the component throw: it has a result exactly when the leaf
  list has one, and the result is then the parts one after the other.
\<close>

lemma PlantVisualization_throws:
  "leaves_part p = Inl e \<Longrightarrow> PlantVisualization p given = Inl e"
  by (simp add: PlantVisualization_def)

lemma PlantVisualization_draws:
  "leaves_part p = Inr leaves \<Longrightarrow>
   \<exists>petals sparkles.
     petals_part p (plantType_of given) = Inr petals \<and> sparkles_part p = Inr sparkles \<and>
     PlantVisualization p given =
       Inr (Soil # stem_part p @ leaves @ flower_center_part p (plantType_of given) @ petals
            @ fruit_part p @ seed_part p @ sprout_part p @ sparkles)"
  by (simp add: PlantVisualization_def Let_def petals_part_eq sparkles_part_eq)

text \<open>
  C6. Eight petals, the petal of index \<open>i\<close> at \<open>i\<close> times 45 degrees, are drawn when the
  stage is flowering or fruiting, and the fruit marker when the stage is fruiting; at every
  percentage whose stage is neither flowering nor fruiting there are no petals and no
  fruit marker, and at every stage but fruiting there is no fruit marker.
\<close>

theorem petals_and_fruit:
  "(getStage p = Flowering \<or> getStage p = Fruiting \<longrightarrow>
      petals_part p t =
        Inr (map (\<lambda>i. Petal i (i * 45) (js_minus (Fin 190) (stemHeight p)) (getPlantColor t))
               [0, 1, 2, 3, 4, 5, 6, 7]) \<and>
      draws (petals_part p t) 8) \<and>
   (\<not> (getStage p = Flowering \<or> getStage p = Fruiting) \<longrightarrow>
      petals_part p t = Inr [] \<and> fruit_part p = []) \<and>
   (getStage p = Fruiting \<longrightarrow>
      fruit_part p = [FruitMarker (js_minus (Fin 190) (stemHeight p))]) \<and>
   (getStage p \<noteq> Fruiting \<longrightarrow> fruit_part p = [])"
  by (simp add: petals_part_def fruit_part_def Array_from_8 petal_def draws_def)

theorem petals_and_fruit_witness:
  "getStage (Fin 95) = Flowering \<and> draws (petals_part (Fin 95) ''sunflower'') 8 \<and>
   fruit_part (Fin 95) = [] \<and>
   getStage (Fin 100) = Fruiting \<and> draws (petals_part (Fin 100) ''sunflower'') 8 \<and>
   fruit_part (Fin 100) = [FruitMarker (Fin 142)] \<and>
   getStage (Fin 50) = Medium \<and> petals_part (Fin 50) ''sunflower'' = Inr [] \<and>
   fruit_part (Fin 50) = []"
  using petals_and_fruit [of "Fin 95" "''sunflower''"]
    petals_and_fruit [of "Fin 100" "''sunflower''"]
    petals_and_fruit [of "Fin 50" "''sunflower''"]
  by (simp add: getStage_def js_lt_Fin stemHeight_def getPlantHeight_def draws_def)



section \<open>The leaves\<close>

text \<open>
  From \<open>85899345920 = 20 * 2\<^sup>3\<^sup>2\<close> on, \<^verbatim>\<open>leafCount\<close> is at least \<open>2\<^sup>3\<^sup>2\<close> and the leaf
  list cannot be created.
\<close>

lemma leaves_part_RangeError:
  assumes "js_ge p (Fin 85899345920)"
  shows "leaves_part p = Inl RangeError"
proof (cases p)
  case (Fin a)
  define k where "k = \<lfloor>a / 20\<rfloor>"
  from assms Fin have "4294967296 \<le> a / 20"
    by (simp add: js_ge_Fin)
  then have "4294967296 \<le> k"
    by (simp add: k_def le_floor_iff)
  then have "4294967295 < ToLength (Fin (of_int k))"
    by simp
  moreover have "leafCount p = Fin (of_int k)"
    by (simp add: leafCount_Fin Fin k_def)
  ultimately show ?thesis
    by (simp add: leaves_part_def Array_from_def Let_def)
next
  case PosInf
  then show ?thesis
    by (simp add: leaves_part_def leafCount_def Array_from_def)
qed (use assms in \<open>simp_all add: js_ge_Fin\<close>)

text \<open>
  Below that bound, and at NaN, the leaf list is created, so the bound decides whether
  the component has a result.
\<close>

lemma leaves_part_Inr:
  assumes "\<not> js_ge p (Fin 85899345920)"
  shows "leaves_part p = Inr (map leaf [0..<ToLength (leafCount p)])"
proof -
  have "\<not> 4294967295 < ToLength (leafCount p)"
  proof (cases p)
    case (Fin a)
    define k where "k = \<lfloor>a / 20\<rfloor>"
    from assms Fin have "a / 20 < 4294967296"
      by (simp add: js_ge_Fin)
    then have "k < 4294967296"
      by (simp add: k_def floor_less_iff)
    then have "ToLength (Fin (of_int k)) = nat k" "\<not> 4294967295 < nat k"
      by (simp_all add: ToLength_of_int)
    then show ?thesis
      by (simp add: Fin leafCount_Fin k_def)
  qed (use assms in \<open>simp_all add: leafCount_def js_ge_Fin\<close>)
  then show ?thesis
    by (simp add: leaves_part_def Array_from_def Let_def)
qed

lemma PlantVisualization_result_iff:
  "(\<exists>shapes. PlantVisualization p given = Inr shapes) \<longleftrightarrow> \<not> js_ge p (Fin 85899345920)"
proof (cases "js_ge p (Fin 85899345920)")
  case True
  then have "PlantVisualization p given = Inl RangeError"
    by (intro PlantVisualization_throws leaves_part_RangeError)
  with True show ?thesis by simp
next
  case False
  from PlantVisualization_draws [OF leaves_part_Inr [OF False], of given]
  show ?thesis using False by blast
qed

text \<open>
  The claim C9 as it is written, that at every percentage the number of leaves drawn is
  the larger of \<open>floor(percentage / 20)\<close> and 0, fails at the percentage 85899345920: the
  larger of the two is 4294967296, creating the leaf list throws \<^verbatim>\<open>RangeError\<close>,
  and the component draws nothing.
\<close>

theorem leaf_elements_counterexample:
  "Math_max (leafCount (Fin 85899345920)) (Fin 0) = Fin 4294967296 \<and>
   \<not> draws (leaves_part (Fin 85899345920)) 4294967296 \<and>
   leaves_part (Fin 85899345920) = Inl RangeError \<and>
   PlantVisualization (Fin 85899345920) None = Inl RangeError"
  by (simp add: PlantVisualization_def leaves_part_def leafCount_Fin Array_from_def draws_def)

text \<open>
  C9, amended. At every percentage below 85899345920, negative infinity included, the
  number of leaves drawn is the larger of \<open>floor(percentage / 20)\<close> and 0, the leaves
  being those of the indices below that number: a negative \<^verbatim>\<open>leafCount\<close> gives an
  empty leaf list.
\<close>

theorem leaf_elements_bounded:
  assumes "js_lt p (Fin 85899345920)"
  shows "\<exists>n. Math_max (leafCount p) (Fin 0) = Fin (of_nat n) \<and>
             leaves_part p = Inr (map leaf [0..<n]) \<and> draws (leaves_part p) n"
proof (cases p)
  case (Fin a)
  define k where "k = \<lfloor>a / 20\<rfloor>"
  from assms Fin have "a / 20 < 4294967296"
    by (simp add: js_lt_Fin)
  then have "k < 4294967296"
    by (simp add: k_def floor_less_iff)
  then have len: "ToLength (Fin (of_int k)) = nat k"
    by (intro ToLength_of_int) simp
  have small: "\<not> 4294967295 < nat k"
    using \<open>k < 4294967296\<close> by linarith
  have count: "leafCount p = Fin (of_int k)"
    by (simp add: leafCount_Fin Fin k_def)
  have "Array_from (Fin (of_int k)) leaf = Inr (map leaf [0..<nat k])"
    unfolding Array_from_def Let_def len using small by (rule if_not_P)
  then have "leaves_part p = Inr (map leaf [0..<nat k])"
    by (simp only: leaves_part_def count)
  moreover have "Math_max (leafCount p) (Fin 0) = Fin (of_nat (nat k))"
    by (simp add: count max_def)
  ultimately show ?thesis
    by (auto simp add: draws_def)
next
  case NegInf
  then have "Math_max (leafCount p) (Fin 0) = Fin (of_nat 0) \<and>
      leaves_part p = Inr (map leaf [0..<0]) \<and> draws (leaves_part p) 0"
    by (simp add: leaves_part_def leafCount_def Array_from_def draws_def)
  then show ?thesis by blast
qed (use assms in \<open>simp_all add: js_lt_Fin\<close>)

theorem leaf_elements_bounded_witness:
  "js_lt (Fin 100) (Fin 85899345920) \<and> js_lt (Fin (- 30)) (Fin 85899345920) \<and>
   Math_max (leafCount (Fin 100)) (Fin 0) = Fin 5 \<and>
   leaves_part (Fin 100) = Inr [leaf 0, leaf 1, leaf 2, leaf 3, leaf 4] \<and>
   draws (leaves_part (Fin 100)) 5 \<and>
   leafCount (Fin (- 30)) = Fin (- 2) \<and>
   Math_max (leafCount (Fin (- 30))) (Fin 0) = Fin 0 \<and>
   leaves_part (Fin (- 30)) = Inr [] \<and> draws (leaves_part (Fin (- 30))) 0"
proof -
  have a: "js_lt (Fin 100) (Fin 85899345920)" and b: "js_lt (Fin (- 30)) (Fin 85899345920)"
    by (simp_all add: js_lt_Fin)
  have c: "leafCount (Fin 100) = Fin 5" and d: "leafCount (Fin (- 30)) = Fin (- 2)"
    by (simp_all add: leafCount_Fin)
  from leaf_elements_bounded [OF a] obtain n where
    n: "Fin 5 = Fin (of_nat n)" "leaves_part (Fin 100) = Inr (map leaf [0..<n])"
       "draws (leaves_part (Fin 100)) n"
    by (auto simp add: c)
  from n(1) have "n = 5" by simp
  from leaf_elements_bounded [OF b] obtain m where
    m: "Fin 0 = Fin (of_nat m)" "leaves_part (Fin (- 30)) = Inr (map leaf [0..<m])"
       "draws (leaves_part (Fin (- 30))) m"
    by (auto simp add: d)
  from m(1) have "m = 0" by simp
  have "[0..<5] = [0, 1, 2, 3, 4::nat]"
    by (simp add: upt_rec)
  with n m a b c d show ?thesis
    unfolding \<open>n = 5\<close> \<open>m = 0\<close> by (simp del: upt_rec_numeral)
qed

section \<open>The sparkles\<close>




end
